theory Spec2Isabelle
  imports Main "HOL-Library.Word" "HOL-Library.AList" "HOL-Library.Char_ord"
    "HOL-Library.List_Lexorder" "HOL-Library.Product_Lexorder"
begin

section \<open>Strings: the Python string methods used by \<^verbatim>\<open>create\<close>\<close>

text \<open>
  Region names are modelled as ASCII strings (one \<open>char\<close> per character).
  \<^verbatim>\<open>str.lower\<close> maps \<open>A..Z\<close> to \<open>a..z\<close> and leaves every other character alone.
\<close>

definition lower_char :: "char \<Rightarrow> char" where
  "lower_char c =
     (case map_of (zip ''ABCDEFGHIJKLMNOPQRSTUVWXYZ'' ''abcdefghijklmnopqrstuvwxyz'') c of
        None \<Rightarrow> c
      | Some l \<Rightarrow> l)"

definition lower :: "string \<Rightarrow> string" where
  "lower s = map lower_char s"

text \<open>
  \<^verbatim>\<open>s.replace(old, new)\<close> with a non-empty \<open>old\<close>: scan from the left; where \<open>old\<close>
  starts, emit \<open>new\<close> and skip over it, otherwise copy one character.
\<close>

fun replace_str :: "string \<Rightarrow> string \<Rightarrow> string \<Rightarrow> string" where
  "replace_str old new [] = []"
| "replace_str old new (x # xs) =
     (if old \<noteq> [] \<and> take (length old) (x # xs) = old
      then new @ replace_str old new (drop (length old - 1) xs)
      else x # replace_str old new xs)"

text \<open>\<^verbatim>\<open>s.split(',')\<close>: one piece more than there are separators; \<open>''''\<close> gives \<open>['''']\<close>.\<close>

fun split_on :: "char \<Rightarrow> string \<Rightarrow> string list" where
  "split_on c [] = [[]]"
| "split_on c (x # xs) =
     (if x = c then [] # split_on c xs
      else (case split_on c xs of
              [] \<Rightarrow> [[x]]
            | w # ws \<Rightarrow> (x # w) # ws))"

text \<open>\<^verbatim>\<open>s.strip()\<close>: drop the ASCII whitespace at both ends.\<close>

definition is_space :: "char \<Rightarrow> bool" where
  "is_space c =
     (let n = (of_char c :: nat) in (9 \<le> n \<and> n \<le> 13) \<or> (28 \<le> n \<and> n \<le> 32))"

definition strip :: "string \<Rightarrow> string" where
  "strip s = rev (dropWhile is_space (rev (dropWhile is_space s)))"

text \<open>\<^verbatim>\<open>s.endswith(suf)\<close>\<close>

definition endswith :: "string \<Rightarrow> string \<Rightarrow> bool" where
  "endswith s suf = (length suf \<le> length s \<and> drop (length s - length suf) s = suf)"

section \<open>The state-name correction dictionary\<close>

text \<open>\<^verbatim>\<open>st_corr\<close>, lines 46-70, in the order of the source.\<close>

definition st_corr :: "(string \<times> string) list" where
  "st_corr =
    [(''andaman'', ''andaman and nicobar island''),
     (''nicobar islands'', ''andaman and nicobar island''),
     (''dadra'', ''dadra and nagar haveli''),
     (''the dadra'', ''dadra and nagar haveli''),
     (''nagar haveli'', ''dadra and nagar haveli''),
     (''daman'', ''daman and diu''),
     (''diu'', ''daman and diu''),
     (''jammu'', ''jammu and kashmir''),
     (''kashmir'', ''jammu and kashmir''),
     (''orissa'', ''odisha''),
     (''pondicherry'', ''puducherry''),
     (''west  bengal'', ''west bengal''),
     (''west bangal'', ''west bengal''),
     (''westbengal'', ''west bengal''),
     (''tamilnadu'', ''tamil nadu''),
     (''uttaranchal'', ''uttarakhand''),
     (''chhatisgarh'', ''chhattisgarh''),
     (''west bengli'', ''west bengal''),
     (''jaipur'', ''rajasthan''),
     (''darbhanga'', ''bihar''),
     (''puttenhalli'', ''karnataka''),
     (''raja annamalai puram'', ''tamil nadu''),
     (''nagpur'', ''maharashtra''),
     (''madanapalle'', ''andhra pradesh''),
     (''balanagar'', ''telangana'')]"

text \<open>
  \<^verbatim>\<open>Series.replace(st_corr)\<close> on one cell: a cell equal to a key becomes that key's
  value, any other cell stays (whole-cell match, all keys tried against the original cell).
\<close>

definition replace_dict :: "(string \<times> string) list \<Rightarrow> string \<Rightarrow> string" where
  "replace_dict d s = (case map_of d s of None \<Rightarrow> s | Some v \<Rightarrow> v)"

section \<open>Raw rows and the cleaning of the state column\<close>

type_synonym i64 = "64 word"

text \<open>
  A row as \<^verbatim>\<open>pd.read_csv\<close> delivers it: the \<open>state\<close> and \<open>date\<close> cells are text, the
  remaining columns are int64 cells, kept by column name in column order.
\<close>

record raw_row =
  r_state :: string
  r_date :: string
  r_vals :: "(string \<times> i64) list"

text \<open>Lines 100-106: lower-case, turn the three separators into commas, split.\<close>

definition split_states :: "string \<Rightarrow> string list" where
  "split_states s =
     split_on (CHR '','')
       (replace_str ''/'' '',''
         (replace_str '' and '' '',''
           (replace_str ''&'' '','' (lower s))))"

text \<open>Line 109, \<^verbatim>\<open>df.explode('state')\<close>: one row per list element, other cells copied.\<close>

definition explode :: "raw_row list \<Rightarrow> raw_row list" where
  "explode df = concat (map (\<lambda>r. map (\<lambda>s. r\<lparr>r_state := s\<rparr>) (split_states (r_state r))) df)"

text \<open>Lines 100-118 together: split and explode, strip, drop the cell 100000, correct.\<close>

definition clean_state :: "raw_row list \<Rightarrow> raw_row list" where
  "clean_state df =
     (let df1 = explode df;
          df2 = map (\<lambda>r. r\<lparr>r_state := strip (r_state r)\<rparr>) df1;
          df3 = filter (\<lambda>r. r_state r \<noteq> ''100000'') df2
      in map (\<lambda>r. r\<lparr>r_state := replace_dict st_corr (r_state r)\<rparr>) df3)"

text \<open>The candidates of one region cell: the stripped pieces, before the filter.\<close>

definition candidates :: "string \<Rightarrow> string list" where
  "candidates s = map strip (split_states s)"

section \<open>Dates, errors, frames\<close>

text \<open>
  A calendar date is (year, month, day); the lexicographic order of the triple is the
  chronological one. \<^verbatim>\<open>dt.to_period('M')\<close> keeps (year, month). A timestamp that may be
  \<^verbatim>\<open>NaT\<close> is a \<open>date option\<close>, \<open>None\<close> being \<^verbatim>\<open>NaT\<close>.
\<close>

type_synonym date = "nat \<times> nat \<times> nat"
type_synonym period = "nat \<times> nat"

definition to_period :: "date \<Rightarrow> period" where
  "to_period d = (fst d, fst (snd d))"

datatype py_error = FileNotFoundError | ParserError | ValueError | KeyError

text \<open>
  A row of the frame that \<^verbatim>\<open>create\<close> returns. \<open>month\<close> is the column that the
  date-wise functions add (\<open>None\<close>: the frame has no such column yet); \<open>vals\<close> holds the
  int64 columns by name, in column order.
\<close>

record row =
  state :: string
  date :: date
  month :: "period option"
  vals :: "(string \<times> i64) list"

text \<open>An aggregated table: the group key and the summed columns of each group.\<close>

type_synonym 'k table = "('k \<times> (string \<times> i64) list) list"

definition col :: "string \<Rightarrow> (string \<times> i64) list \<Rightarrow> i64" where
  "col c v = (case map_of v c of None \<Rightarrow> 0 | Some x \<Rightarrow> x)"

definition has_cols :: "string list \<Rightarrow> row list \<Rightarrow> bool" where
  "has_cols cs df = list_all (\<lambda>r. list_all (\<lambda>c. map_of (vals r) c \<noteq> None) cs) df"

definition column :: "string \<Rightarrow> 'k table \<Rightarrow> i64 list" where
  "column c t = map (\<lambda>g. col c (snd g)) t"

section \<open>\<^verbatim>\<open>create\<close>, lines 78-123\<close>

text \<open>
  The data directory maps a folder name to its listing (\<open>None\<close>: no such folder, and
  \<^verbatim>\<open>os.listdir\<close> raises). A listing gives each file name with what \<^verbatim>\<open>pd.read_csv\<close>
  returns for it (\<open>None\<close>: \<^verbatim>\<open>read_csv\<close> raises). All files of a folder share one header.
\<close>

type_synonym listing = "(string \<times> raw_row list option) list"

fun read_csvs :: "listing \<Rightarrow> py_error + raw_row list list" where
  "read_csvs [] = Inr []"
| "read_csvs (f # fs) =
     (case snd f of
        None \<Rightarrow> Inl ParserError
      | Some df \<Rightarrow> (case read_csvs fs of Inl e \<Rightarrow> Inl e | Inr dfs \<Rightarrow> Inr (df # dfs)))"

text \<open>
  Line 121, \<^verbatim>\<open>pd.to_datetime(df['date'], format='%d-%m-%Y')\<close>. The parser of pandas is a
  parameter: \<open>None\<close> for a text it rejects, which raises.
\<close>

definition to_datetime_col :: "(string \<Rightarrow> date option) \<Rightarrow> raw_row list \<Rightarrow> py_error + row list" where
  "to_datetime_col parse_date df =
     (if list_all (\<lambda>r. parse_date (r_date r) \<noteq> None) df
      then Inr (map (\<lambda>r. \<lparr>state = r_state r, date = the (parse_date (r_date r)),
                           month = None, vals = r_vals r\<rparr>) df)
      else Inl ValueError)"

definition create ::
  "(string \<Rightarrow> date option) \<Rightarrow> (string \<rightharpoonup> listing) \<Rightarrow> string \<Rightarrow> py_error + row list" where
  "create parse_date data selected_folder =
     (case data selected_folder of
        None \<Rightarrow> Inl FileNotFoundError
      | Some files \<Rightarrow>
          (let csv_files = filter (\<lambda>f. endswith (fst f) ''.csv'') files
           in case read_csvs csv_files of
                Inl e \<Rightarrow> Inl e
              | Inr dataframes \<Rightarrow>
                  if dataframes = [] then Inl ValueError
                  else to_datetime_col parse_date (clean_state (concat dataframes))))"

section \<open>Grouping and cumulative sums\<close>

text \<open>
  \<^verbatim>\<open>groupby(key, as_index=False)[cols].sum()\<close>: one row per key that occurs, keys in
  ascending order, each listed column summed over the rows of the group (int64, wrapping).
\<close>

definition groupby_sum ::
  "('r \<Rightarrow> 'k::linorder) \<Rightarrow> ('r \<Rightarrow> (string \<times> i64) list) \<Rightarrow> string list \<Rightarrow> 'r list \<Rightarrow> 'k table" where
  "groupby_sum key vs cols df =
     map (\<lambda>k. (k, map (\<lambda>c. (c, sum_list (map (\<lambda>r. col c (vs r)) (filter (\<lambda>r. key r = k) df)))) cols))
       (sort (remdups (map key df)))"

fun cumsum_from :: "i64 \<Rightarrow> i64 list \<Rightarrow> i64 list" where
  "cumsum_from acc [] = []"
| "cumsum_from acc (x # xs) = (acc + x) # cumsum_from (acc + x) xs"

definition cumsum :: "i64 list \<Rightarrow> i64 list" where
  "cumsum xs = cumsum_from 0 xs"

text \<open>\<^verbatim>\<open>t[name] = xs\<close>: the column is overwritten, or appended when it is new.\<close>

definition set_col :: "string \<Rightarrow> i64 list \<Rightarrow> 'k table \<Rightarrow> 'k table" where
  "set_col name xs t = map (\<lambda>(g, x). (fst g, AList.update name x (snd g))) (zip t xs)"

text \<open>\<^verbatim>\<open>t[cols]\<close>: the listed columns only, in the listed order.\<close>

definition project :: "string list \<Rightarrow> 'k table \<Rightarrow> 'k table" where
  "project cols t = map (\<lambda>g. (fst g, map (\<lambda>c. (c, col c (snd g))) cols)) t"

section \<open>The date-wise summaries\<close>

text \<open>Line 129 (and 238, 340): \<^verbatim>\<open>df['month'] = df['date'].dt.to_period('M')\<close>, in place.\<close>

definition set_month :: "row list \<Rightarrow> row list" where
  "set_month df = map (\<lambda>r. r\<lparr>month := Some (to_period (date r))\<rparr>) df"

text \<open>
  Lines 130-138 (and 239-249, 341-351): group by (month, state), keep the rows of the
  chosen state when one is given, group by month. The three functions differ in the list
  of columns only.
\<close>

definition month_sums :: "string list \<Rightarrow> row list \<Rightarrow> string \<Rightarrow> period table" where
  "month_sums cols df stv =
     (let mt = groupby_sum (\<lambda>r. (the (month r), state r)) vals cols df
      in if stv \<noteq> ''''
         then groupby_sum (\<lambda>g. fst (fst g)) snd cols (filter (\<lambda>g. snd (fst g) = stv) mt)
         else groupby_sum (\<lambda>g. fst (fst g)) snd cols mt)"

definition date_plot_name :: "string \<Rightarrow> string" where
  "date_plot_name stv =
     (if stv \<noteq> '''' then ''date_plot_'' @ replace_str '' '' ''-'' stv @ ''.png''
      else ''date_plot.png'')"

text \<open>
  \<open>enrol_dts\<close> is the frame \<^verbatim>\<open>dts\<close> after line 144, whose columns are plotted;
  \<open>enrol_date_wise\<close> returns its projection of line 192 with the plot's path, and the
  caller's frame as the function leaves it. Likewise for the other two categories.
\<close>

definition enrol_dts :: "row list \<Rightarrow> string \<Rightarrow> period table" where
  "enrol_dts df stv =
     (let dts = month_sums [''age_0_5'', ''age_5_17'', ''age_18_greater'', ''total''] df stv;
          dts = set_col ''c_age_0_5'' (map (\<lambda>x. 0 + x) (cumsum (column ''age_0_5'' dts))) dts;
          dts = set_col ''c_age_5_17'' (map (\<lambda>x. 0 + x) (cumsum (column ''age_5_17'' dts))) dts;
          dts = set_col ''c_age_18_greater''
                  (map (\<lambda>x. 0 + x) (cumsum (column ''age_18_greater'' dts))) dts
      in set_col ''c_total''
           (map (\<lambda>g. col ''c_age_0_5'' (snd g) + col ''c_age_5_17'' (snd g)
                       + col ''c_age_18_greater'' (snd g)) dts) dts)"

definition enrol_date_wise ::
  "row list \<Rightarrow> string \<Rightarrow> py_error + ((period table \<times> string) \<times> row list)" where
  "enrol_date_wise df stv =
     (let df = set_month df
      in if \<not> has_cols [''age_0_5'', ''age_5_17'', ''age_18_greater'', ''total''] df
         then Inl KeyError
         else Inr ((project [''age_0_5'', ''age_5_17'', ''age_18_greater'', ''total'']
                      (enrol_dts df stv),
                    ''plots/'' @ date_plot_name stv), df))"

definition bio_dts :: "row list \<Rightarrow> string \<Rightarrow> period table" where
  "bio_dts df stv =
     (let dts = month_sums [''bio_age_5_17'', ''bio_age_17_'', ''total''] df stv;
          dts = set_col ''c_bio_age_5_17''
                  (map (\<lambda>x. 0 + x) (cumsum (column ''bio_age_5_17'' dts))) dts;
          dts = set_col ''c_bio_age_17_''
                  (map (\<lambda>x. 0 + x) (cumsum (column ''bio_age_17_'' dts))) dts
      in set_col ''c_total''
           (map (\<lambda>g. col ''c_bio_age_5_17'' (snd g) + col ''c_bio_age_17_'' (snd g)) dts) dts)"

definition bio_date_wise ::
  "row list \<Rightarrow> string \<Rightarrow> py_error + ((period table \<times> string) \<times> row list)" where
  "bio_date_wise df stv =
     (let df = set_month df
      in if \<not> has_cols [''bio_age_5_17'', ''bio_age_17_'', ''total''] df
         then Inl KeyError
         else Inr ((project [''bio_age_5_17'', ''bio_age_17_'', ''total''] (bio_dts df stv),
                    ''plots/'' @ date_plot_name stv), df))"

definition demo_dts :: "row list \<Rightarrow> string \<Rightarrow> period table" where
  "demo_dts df stv =
     (let dts = month_sums [''demo_age_5_17'', ''demo_age_17_'', ''total''] df stv;
          dts = set_col ''c_demo_age_5_17''
                  (map (\<lambda>x. 0 + x) (cumsum (column ''demo_age_5_17'' dts))) dts;
          dts = set_col ''c_demo_age_17_''
                  (map (\<lambda>x. 0 + x) (cumsum (column ''demo_age_17_'' dts))) dts
      in set_col ''c_total''
           (map (\<lambda>g. col ''c_demo_age_5_17'' (snd g) + col ''c_demo_age_17_'' (snd g)) dts) dts)"

definition demo_date_wise ::
  "row list \<Rightarrow> string \<Rightarrow> py_error + ((period table \<times> string) \<times> row list)" where
  "demo_date_wise df stv =
     (let df = set_month df
      in if \<not> has_cols [''demo_age_5_17'', ''demo_age_17_'', ''total''] df
         then Inl KeyError
         else Inr ((project [''demo_age_5_17'', ''demo_age_17_'', ''total''] (demo_dts df stv),
                    ''plots/'' @ date_plot_name stv), df))"

section \<open>The state-wise summaries\<close>

definition date_min :: "row list \<Rightarrow> date option" where
  "date_min df = (case map date df of [] \<Rightarrow> None | d # ds \<Rightarrow> Some (fold min ds d))"

definition date_max :: "row list \<Rightarrow> date option" where
  "date_max df = (case map date df of [] \<Rightarrow> None | d # ds \<Rightarrow> Some (fold max ds d))"

text \<open>Comparisons of timestamps: every comparison with \<^verbatim>\<open>NaT\<close> is false.\<close>

definition ts_less :: "date option \<Rightarrow> date option \<Rightarrow> bool" where
  "ts_less a b =
     (case a of None \<Rightarrow> False | Some x \<Rightarrow> (case b of None \<Rightarrow> False | Some y \<Rightarrow> x < y))"

definition ts_eq :: "date option \<Rightarrow> date option \<Rightarrow> bool" where
  "ts_eq a b =
     (case a of None \<Rightarrow> False | Some x \<Rightarrow> (case b of None \<Rightarrow> False | Some y \<Rightarrow> x = y))"

definition between :: "date \<Rightarrow> date option \<Rightarrow> date option \<Rightarrow> bool" where
  "between d a b =
     (case a of None \<Rightarrow> False
      | Some x \<Rightarrow> (case b of None \<Rightarrow> False | Some y \<Rightarrow> x \<le> d \<and> d \<le> y))"

text \<open>
  Lines 199-232 (and 304-334, 410-440); the three functions differ in the list of columns
  only. \<^verbatim>\<open>pd.to_datetime(s)\<close> is a parameter: \<open>None\<close> for a text it rejects (it raises),
  \<open>Some None\<close> for a text it reads as \<^verbatim>\<open>NaT\<close>.
\<close>

definition state_sums ::
  "(string \<Rightarrow> date option option) \<Rightarrow> string list \<Rightarrow> row list \<Rightarrow> string \<Rightarrow> string \<Rightarrow>
     py_error + ((string table \<times> string) \<times> row list)" where
  "state_sums to_datetime cols df s e =
     (case (if s \<noteq> '''' then to_datetime s else Some (date_min df)) of
        None \<Rightarrow> Inl ValueError
      | Some s' \<Rightarrow>
     (case (if e \<noteq> '''' then to_datetime e else Some (date_max df)) of
        None \<Rightarrow> Inl ValueError
      | Some e' \<Rightarrow>
          if \<not> has_cols cols df then Inl KeyError
          else
            (let sts = groupby_sum state vals cols df;
                 sts = (if ts_less (date_min df) s' \<or> ts_less e' (date_max df)
                        then groupby_sum state vals cols (filter (\<lambda>r. between (date r) s' e') df)
                        else sts);
                 filename = (if ts_eq s' (date_min df) \<and> ts_eq e' (date_max df)
                             then ''state_plot.png'' else ''temp_state_plot.png'')
             in Inr ((sts, ''plots/'' @ filename), df))))"

definition enrol_state_wise ::
  "(string \<Rightarrow> date option option) \<Rightarrow> row list \<Rightarrow> string \<Rightarrow> string \<Rightarrow>
     py_error + ((string table \<times> string) \<times> row list)" where
  "enrol_state_wise to_datetime df s e =
     state_sums to_datetime [''age_0_5'', ''age_5_17'', ''age_18_greater'', ''total''] df s e"

definition bio_state_wise ::
  "(string \<Rightarrow> date option option) \<Rightarrow> row list \<Rightarrow> string \<Rightarrow> string \<Rightarrow>
     py_error + ((string table \<times> string) \<times> row list)" where
  "bio_state_wise to_datetime df s e =
     state_sums to_datetime [''bio_age_5_17'', ''bio_age_17_'', ''total''] df s e"

definition demo_state_wise ::
  "(string \<Rightarrow> date option option) \<Rightarrow> row list \<Rightarrow> string \<Rightarrow> string \<Rightarrow>
     py_error + ((string table \<times> string) \<times> row list)" where
  "demo_state_wise to_datetime df s e =
     state_sums to_datetime [''demo_age_5_17'', ''demo_age_17_'', ''total''] df s e"

section \<open>The dispatchers\<close>

text \<open>
  \<^verbatim>\<open>df['total'] = df[a] + df[b] + df[c]\<close>, in place: \<^verbatim>\<open>KeyError\<close> when a column is
  missing, otherwise the column \<open>total\<close> is overwritten or appended.
\<close>

definition set_total3 :: "string \<Rightarrow> string \<Rightarrow> string \<Rightarrow> row list \<Rightarrow> py_error + row list" where
  "set_total3 a b c df =
     (if has_cols [a, b, c] df
      then Inr (map (\<lambda>r. r\<lparr>vals := AList.update ''total''
                             (col a (vals r) + col b (vals r) + col c (vals r)) (vals r)\<rparr>) df)
      else Inl KeyError)"

definition set_total2 :: "string \<Rightarrow> string \<Rightarrow> row list \<Rightarrow> py_error + row list" where
  "set_total2 a b df =
     (if has_cols [a, b] df
      then Inr (map (\<lambda>r. r\<lparr>vals := AList.update ''total''
                             (col a (vals r) + col b (vals r)) (vals r)\<rparr>) df)
      else Inl KeyError)"

text \<open>
  A call that returns \<open>x\<close> and leaves the caller's frame as \<open>df\<close> is \<open>Inr (Some x, df)\<close>;
  a call that falls through the \<^verbatim>\<open>if/elif\<close> chain returns \<^verbatim>\<open>None\<close>: \<open>Inr (None, df)\<close>.
\<close>

definition returned ::
  "py_error + ('a \<times> row list) \<Rightarrow> py_error + ('a option \<times> row list)" where
  "returned x = (case x of Inl err \<Rightarrow> Inl err | Inr y \<Rightarrow> Inr (Some (fst y), snd y))"

definition date_wise ::
  "string \<Rightarrow> row list \<Rightarrow> string \<Rightarrow> py_error + ((period table \<times> string) option \<times> row list)" where
  "date_wise selected_folder df stv =
     (if selected_folder = ''api_data_aadhar_enrolment'' then
        (case set_total3 ''age_0_5'' ''age_5_17'' ''age_18_greater'' df of
           Inl err \<Rightarrow> Inl err
         | Inr df \<Rightarrow> returned (enrol_date_wise df stv))
      else if selected_folder = ''api_data_aadhar_biometric'' then
        (case set_total2 ''bio_age_5_17'' ''bio_age_17_'' df of
           Inl err \<Rightarrow> Inl err
         | Inr df \<Rightarrow> returned (bio_date_wise df stv))
      else if selected_folder = ''api_data_aadhar_demographic'' then
        (case set_total2 ''demo_age_5_17'' ''demo_age_17_'' df of
           Inl err \<Rightarrow> Inl err
         | Inr df \<Rightarrow> returned (demo_date_wise df stv))
      else Inr (None, df))"

definition state_wise ::
  "(string \<Rightarrow> date option option) \<Rightarrow> string \<Rightarrow> row list \<Rightarrow> string \<Rightarrow> string \<Rightarrow>
     py_error + ((string table \<times> string) option \<times> row list)" where
  "state_wise to_datetime selected_folder df s e =
     (if selected_folder = ''api_data_aadhar_enrolment'' then
        (case set_total3 ''age_0_5'' ''age_5_17'' ''age_18_greater'' df of
           Inl err \<Rightarrow> Inl err
         | Inr df \<Rightarrow> returned (enrol_state_wise to_datetime df s e))
      else if selected_folder = ''api_data_aadhar_biometric'' then
        (case set_total2 ''bio_age_5_17'' ''bio_age_17_'' df of
           Inl err \<Rightarrow> Inl err
         | Inr df \<Rightarrow> returned (bio_state_wise to_datetime df s e))
      else if selected_folder = ''api_data_aadhar_demographic'' then
        (case set_total2 ''demo_age_5_17'' ''demo_age_17_'' df of
           Inl err \<Rightarrow> Inl err
         | Inr df \<Rightarrow> returned (demo_state_wise to_datetime df s e))
      else Inr (None, df))"

section \<open>Region normalisation\<close>

lemma clean_state_append: "clean_state (xs @ ys) = clean_state xs @ clean_state ys"
  by (simp add: clean_state_def explode_def)

lemma clean_state_single:
  "clean_state [r] =
     map (\<lambda>s. r\<lparr>r_state := replace_dict st_corr s\<rparr>)
       (filter (\<lambda>s. s \<noteq> ''100000'') (candidates (r_state r)))"
  by (simp add: clean_state_def explode_def candidates_def filter_map comp_def)

lemma clean_state_insert:
  "clean_state (xs @ r # ys) = clean_state xs @ clean_state [r] @ clean_state ys"
  using clean_state_append [of xs "[r] @ ys"] clean_state_append [of "[r]" ys] by simp

lemma candidates_daman: "candidates ''Daman & Diu'' = [''daman'', ''diu'']"
  by (simp add: candidates_def split_states_def lower_def lower_char_def strip_def is_space_def)

lemma candidates_jammu: "candidates ''Jammu and Kashmir'' = [''jammu'', ''kashmir'']"
  by (simp add: candidates_def split_states_def lower_def lower_char_def strip_def is_space_def)


lemma st_corr_values: "list_all (\<lambda>kv. map_of st_corr (snd kv) = None) st_corr"
  by (simp add: st_corr_def)

text \<open>
  Claim C9. The substitution of \<^verbatim>\<open>st_corr\<close> is idempotent: replacing twice gives what
  replacing once gives, for every cell; and no value of the dictionary is one of its keys.
\<close>

theorem alias_idempotent:
  "replace_dict st_corr (replace_dict st_corr s) = replace_dict st_corr s
   \<and> list_all (\<lambda>kv. map_of st_corr (snd kv) = None) st_corr"
proof
  show "replace_dict st_corr (replace_dict st_corr s) = replace_dict st_corr s"
  proof (cases "map_of st_corr s")
    case None
    then show ?thesis by (simp add: replace_dict_def)
  next
    case (Some v)
    then have "(s, v) \<in> set st_corr" by (rule map_of_SomeD)
    with st_corr_values have "map_of st_corr v = None"
      by (auto simp: list_all_iff)
    with Some show ?thesis by (simp add: replace_dict_def)
  qed
  show "list_all (\<lambda>kv. map_of st_corr (snd kv) = None) st_corr" by (rule st_corr_values)
qed

theorem alias_idempotent_witness:
  "replace_dict st_corr (replace_dict st_corr ''orissa'') = ''odisha''"
  using alias_idempotent [of "''orissa''"] by (simp add: replace_dict_def st_corr_def)

text \<open>
  Claim C1, as the code has it. A row whose region cell is \<open>Daman & Diu\<close> gives two records,
  both with the region \<open>daman and diu\<close> and both with the row's other cells; a row whose
  region cell is \<open>Jammu and Kashmir\<close> gives two records with the region
  \<open>jammu and kashmir\<close>. The records of the other rows are not affected.
\<close>

theorem fanout_two_records:
  "(r_state r = ''Daman & Diu'' \<longrightarrow>
      clean_state (xs @ r # ys) =
        clean_state xs
          @ [r\<lparr>r_state := ''daman and diu''\<rparr>, r\<lparr>r_state := ''daman and diu''\<rparr>]
          @ clean_state ys)
   \<and> (r_state r = ''Jammu and Kashmir'' \<longrightarrow>
      clean_state (xs @ r # ys) =
        clean_state xs
          @ [r\<lparr>r_state := ''jammu and kashmir''\<rparr>, r\<lparr>r_state := ''jammu and kashmir''\<rparr>]
          @ clean_state ys)"
  by (simp add: clean_state_insert clean_state_single candidates_daman candidates_jammu
      replace_dict_def st_corr_def)

theorem fanout_two_records_witness:
  "clean_state ([] @ \<lparr>r_state = ''Daman & Diu'', r_date = ''05-01-2024'',
                      r_vals = [(''age_0_5'', 10)]\<rparr> # []) =
     [\<lparr>r_state = ''daman and diu'', r_date = ''05-01-2024'', r_vals = [(''age_0_5'', 10)]\<rparr>,
      \<lparr>r_state = ''daman and diu'', r_date = ''05-01-2024'', r_vals = [(''age_0_5'', 10)]\<rparr>]
   \<and> clean_state ([] @ \<lparr>r_state = ''Jammu and Kashmir'', r_date = ''05-01-2024'',
                        r_vals = [(''age_0_5'', 7)]\<rparr> # []) =
     [\<lparr>r_state = ''jammu and kashmir'', r_date = ''05-01-2024'', r_vals = [(''age_0_5'', 7)]\<rparr>,
      \<lparr>r_state = ''jammu and kashmir'', r_date = ''05-01-2024'', r_vals = [(''age_0_5'', 7)]\<rparr>]"
  using fanout_two_records [of "\<lparr>r_state = ''Daman & Diu'', r_date = ''05-01-2024'',
                      r_vals = [(''age_0_5'', 10)]\<rparr>" "[]" "[]"]
    fanout_two_records [of "\<lparr>r_state = ''Jammu and Kashmir'', r_date = ''05-01-2024'',
                        r_vals = [(''age_0_5'', 7)]\<rparr>" "[]" "[]"]
  by (simp add: clean_state_def explode_def)

text \<open>
  Claim C1 as stated fails: loading a folder whose one file has the one row
  \<open>Daman & Diu\<close> gives two records, and likewise for \<open>Jammu and Kashmir\<close>.
\<close>

theorem fanout_one_record_counterexample:
  "create [''05-01-2024'' \<mapsto> (2024, 1, 5)]
     [''api_data_aadhar_enrolment'' \<mapsto>
        [(''part1.csv'', Some [\<lparr>r_state = ''Daman & Diu'', r_date = ''05-01-2024'',
                                 r_vals = [(''age_0_5'', 10), (''age_5_17'', 5),
                                           (''age_18_greater'', 2)]\<rparr>])]]
     ''api_data_aadhar_enrolment'' =
   Inr [\<lparr>state = ''daman and diu'', date = (2024, 1, 5), month = None,
          vals = [(''age_0_5'', 10), (''age_5_17'', 5), (''age_18_greater'', 2)]\<rparr>,
        \<lparr>state = ''daman and diu'', date = (2024, 1, 5), month = None,
          vals = [(''age_0_5'', 10), (''age_5_17'', 5), (''age_18_greater'', 2)]\<rparr>]
   \<and> create [''05-01-2024'' \<mapsto> (2024, 1, 5)]
     [''api_data_aadhar_enrolment'' \<mapsto>
        [(''part1.csv'', Some [\<lparr>r_state = ''Jammu and Kashmir'', r_date = ''05-01-2024'',
                                 r_vals = [(''age_0_5'', 10), (''age_5_17'', 5),
                                           (''age_18_greater'', 2)]\<rparr>])]]
     ''api_data_aadhar_enrolment'' =
   Inr [\<lparr>state = ''jammu and kashmir'', date = (2024, 1, 5), month = None,
          vals = [(''age_0_5'', 10), (''age_5_17'', 5), (''age_18_greater'', 2)]\<rparr>,
        \<lparr>state = ''jammu and kashmir'', date = (2024, 1, 5), month = None,
          vals = [(''age_0_5'', 10), (''age_5_17'', 5), (''age_18_greater'', 2)]\<rparr>]"
  by (simp add: create_def endswith_def to_datetime_col_def clean_state_single
      candidates_daman candidates_jammu replace_dict_def st_corr_def)



section \<open>Loading\<close>

text \<open>
  Claim C10. When the folder exists and none of its files ends in \<open>.csv\<close>, the load
  fails: \<^verbatim>\<open>pd.concat\<close> of no frame raises \<^verbatim>\<open>ValueError\<close>, and no empty frame is
  returned.
\<close>

theorem create_no_csv_fails:
  "data selected_folder = Some files \<Longrightarrow>
   filter (\<lambda>f. endswith (fst f) ''.csv'') files = [] \<Longrightarrow>
   create parse_date data selected_folder = Inl ValueError"
  by (simp add: create_def)

theorem create_no_csv_fails_witness:
  "create [''05-01-2024'' \<mapsto> (2024, 1, 5)]
     [''api_data_aadhar_enrolment'' \<mapsto> [(''notes.txt'', None)]]
     ''api_data_aadhar_enrolment'' = Inl ValueError"
  using create_no_csv_fails [of "[''api_data_aadhar_enrolment'' \<mapsto> [(''notes.txt'', None)]]"
      "''api_data_aadhar_enrolment''" "[(''notes.txt'', None)]" "[''05-01-2024'' \<mapsto> (2024, 1, 5)]"]
  by (simp add: endswith_def)

section \<open>Dispatch on the category\<close>

text \<open>
  Claim C2, as the code has it. For a folder name that is none of the three known ones,
  \<^verbatim>\<open>date_wise\<close> and \<^verbatim>\<open>state_wise\<close> raise nothing: they fall through the chain, return
  \<^verbatim>\<open>None\<close> and leave the frame as it was.
\<close>

theorem unknown_category_returns_none:
  "selected_folder \<noteq> ''api_data_aadhar_enrolment'' \<Longrightarrow>
   selected_folder \<noteq> ''api_data_aadhar_biometric'' \<Longrightarrow>
   selected_folder \<noteq> ''api_data_aadhar_demographic'' \<Longrightarrow>
   date_wise selected_folder df stv = Inr (None, df)
   \<and> state_wise to_datetime selected_folder df s e = Inr (None, df)"
  by (simp add: date_wise_def state_wise_def)

theorem unknown_category_returns_none_witness:
  "date_wise ''api_data_aadhar_pincode'' [] ''bihar'' = Inr (None, [])
   \<and> state_wise Map.empty ''api_data_aadhar_pincode'' [] '''' '''' = Inr (None, [])"
  using unknown_category_returns_none [of "''api_data_aadhar_pincode''" "[]" "''bihar''"
      Map.empty "''''" "''''"]
  by simp

text \<open>
  Claim C2 as stated fails: for the folder name \<open>other\<close> neither dispatcher fails.
\<close>

theorem unknown_category_counterexample:
  "date_wise ''other''
     [\<lparr>state = ''bihar'', date = (2024, 1, 5), month = None,
       vals = [(''age_0_5'', 10), (''age_5_17'', 5), (''age_18_greater'', 2)]\<rparr>] '''' =
   Inr (None,
     [\<lparr>state = ''bihar'', date = (2024, 1, 5), month = None,
       vals = [(''age_0_5'', 10), (''age_5_17'', 5), (''age_18_greater'', 2)]\<rparr>])
   \<and> state_wise [''2024-01-05'' \<mapsto> Some (2024, 1, 5)] ''other''
     [\<lparr>state = ''bihar'', date = (2024, 1, 5), month = None,
       vals = [(''age_0_5'', 10), (''age_5_17'', 5), (''age_18_greater'', 2)]\<rparr>] '''' '''' =
   Inr (None,
     [\<lparr>state = ''bihar'', date = (2024, 1, 5), month = None,
       vals = [(''age_0_5'', 10), (''age_5_17'', 5), (''age_18_greater'', 2)]\<rparr>])"
  by (simp add: date_wise_def state_wise_def)

section \<open>Columns, groups and cumulative sums\<close>

lemma col_update: "col c (AList.update n x v) = (if c = n then x else col c v)"
  by (simp add: col_def update_conv')

lemma length_cumsum_from: "length (cumsum_from a xs) = length xs"
  by (induction xs arbitrary: a) auto

lemma length_cumsum: "length (cumsum xs) = length xs"
  by (simp add: cumsum_def length_cumsum_from)

lemma length_column: "length (column c t) = length t"
  by (simp add: column_def)

lemma column_set_col:
  "length xs = length t \<Longrightarrow> column c (set_col n xs t) = (if c = n then xs else column c t)"
proof (induction t arbitrary: xs)
  case Nil
  then show ?case by (simp add: column_def set_col_def)
next
  case (Cons g t)
  then obtain y ys where xs: "xs = y # ys" by (cases xs) auto
  with Cons.prems have "length ys = length t" by simp
  from Cons.IH [OF this] show ?case
    by (auto simp: xs column_def set_col_def col_update)
qed

lemma length_set_col: "length xs = length t \<Longrightarrow> length (set_col n xs t) = length t"
  by (simp add: set_col_def)

lemma keys_set_col: "length xs = length t \<Longrightarrow> map fst (set_col n xs t) = map fst t"
proof (induction t arbitrary: xs)
  case Nil
  then show ?case by (simp add: set_col_def)
next
  case (Cons g t)
  then obtain y ys where xs: "xs = y # ys" by (cases xs) auto
  with Cons.prems have "length ys = length t" by simp
  from Cons.IH [OF this] show ?case by (simp add: xs set_col_def)
qed

lemma map_add_zip:
  "map (\<lambda>g. f g + h g) t = map (\<lambda>(x, y). x + y) (zip (map f t) (map h t))"
  by (induction t) auto

lemma cumsum_from_add:
  "length xs = length ys \<Longrightarrow>
   cumsum_from (p + q) (map (\<lambda>(x, y). x + y) (zip xs ys)) =
     map (\<lambda>(x, y). x + y) (zip (cumsum_from p xs) (cumsum_from q ys))"
proof (induction xs ys arbitrary: p q rule: list_induct2)
  case Nil
  then show ?case by simp
next
  case (Cons x xs y ys)
  from Cons.IH [of "p + x" "q + y"] show ?case by (simp add: ac_simps)
qed

lemma cumsum_add:
  "length xs = length ys \<Longrightarrow>
   cumsum (map (\<lambda>(x, y). x + y) (zip xs ys)) =
     map (\<lambda>(x, y). x + y) (zip (cumsum xs) (cumsum ys))"
  using cumsum_from_add [of xs ys 0 0] by (simp add: cumsum_def)

lemma col_groupby:
  "g \<in> set (groupby_sum key vs cols df) \<Longrightarrow> c \<in> set cols \<Longrightarrow>
   col c (snd g) = sum_list (map (\<lambda>r. col c (vs r)) (filter (\<lambda>r. key r = fst g) df))"
  by (auto simp: groupby_sum_def col_def map_of_map_restrict)

lemma keys_groupby: "map fst (groupby_sum key vs cols df) = sort (remdups (map key df))"
  by (simp add: groupby_sum_def comp_def)

lemma groupby_total3:
  assumes "\<And>r. r \<in> set df \<Longrightarrow> col t (vs r) = col a (vs r) + col b (vs r) + col c (vs r)"
    and "a \<in> set cols" "b \<in> set cols" "c \<in> set cols" "t \<in> set cols"
    and "g \<in> set (groupby_sum key vs cols df)"
  shows "col t (snd g) = col a (snd g) + col b (snd g) + col c (snd g)"
proof -
  let ?grp = "filter (\<lambda>r. key r = fst g) df"
  have "sum_list (map (\<lambda>r. col t (vs r)) ?grp) =
        sum_list (map (\<lambda>r. col a (vs r) + col b (vs r) + col c (vs r)) ?grp)"
    using assms(1) by (intro arg_cong [where f = sum_list] map_cong) auto
  also have "\<dots> =
        sum_list (map (\<lambda>r. col a (vs r)) ?grp) + sum_list (map (\<lambda>r. col b (vs r)) ?grp)
        + sum_list (map (\<lambda>r. col c (vs r)) ?grp)"
    by (simp add: sum_list_addf)
  finally show ?thesis using assms(2-6) by (simp add: col_groupby)
qed

lemma groupby_total2:
  assumes "\<And>r. r \<in> set df \<Longrightarrow> col t (vs r) = col a (vs r) + col b (vs r)"
    and "a \<in> set cols" "b \<in> set cols" "t \<in> set cols"
    and "g \<in> set (groupby_sum key vs cols df)"
  shows "col t (snd g) = col a (snd g) + col b (snd g)"
proof -
  let ?grp = "filter (\<lambda>r. key r = fst g) df"
  have "sum_list (map (\<lambda>r. col t (vs r)) ?grp) =
        sum_list (map (\<lambda>r. col a (vs r) + col b (vs r)) ?grp)"
    using assms(1) by (intro arg_cong [where f = sum_list] map_cong) auto
  also have "\<dots> =
        sum_list (map (\<lambda>r. col a (vs r)) ?grp) + sum_list (map (\<lambda>r. col b (vs r)) ?grp)"
    by (simp add: sum_list_addf)
  finally show ?thesis using assms(2-5) by (simp add: col_groupby)
qed

lemma month_sums_total3:
  assumes "\<And>r. r \<in> set df \<Longrightarrow> col t (vals r) = col a (vals r) + col b (vals r) + col c (vals r)"
    and "a \<in> set cols" "b \<in> set cols" "c \<in> set cols" "t \<in> set cols"
    and "g \<in> set (month_sums cols df stv)"
  shows "col t (snd g) = col a (snd g) + col b (snd g) + col c (snd g)"
proof -
  let ?mt = "groupby_sum (\<lambda>r. (the (month r), state r)) vals cols df"
  have mt: "col t (snd h) = col a (snd h) + col b (snd h) + col c (snd h)" if "h \<in> set ?mt" for h
    using assms(1-5) that by (rule groupby_total3)
  show ?thesis
  proof (cases "stv = ''''")
    case True
    with assms(6) have "g \<in> set (groupby_sum (\<lambda>g. fst (fst g)) snd cols ?mt)"
      by (simp add: month_sums_def)
    with mt assms(2-5) show ?thesis by (rule groupby_total3)
  next
    case False
    let ?sel = "filter (\<lambda>g. snd (fst g) = stv) ?mt"
    from False assms(6) have g: "g \<in> set (groupby_sum (\<lambda>g. fst (fst g)) snd cols ?sel)"
      by (simp add: month_sums_def)
    have sel: "col t (snd h) = col a (snd h) + col b (snd h) + col c (snd h)"
      if "h \<in> set ?sel" for h
      using that mt by simp
    from sel assms(2-5) g show ?thesis by (rule groupby_total3)
  qed
qed

lemma month_sums_total2:
  assumes "\<And>r. r \<in> set df \<Longrightarrow> col t (vals r) = col a (vals r) + col b (vals r)"
    and "a \<in> set cols" "b \<in> set cols" "t \<in> set cols"
    and "g \<in> set (month_sums cols df stv)"
  shows "col t (snd g) = col a (snd g) + col b (snd g)"
proof -
  let ?mt = "groupby_sum (\<lambda>r. (the (month r), state r)) vals cols df"
  have mt: "col t (snd h) = col a (snd h) + col b (snd h)" if "h \<in> set ?mt" for h
    using assms(1-4) that by (rule groupby_total2)
  show ?thesis
  proof (cases "stv = ''''")
    case True
    with assms(5) have "g \<in> set (groupby_sum (\<lambda>g. fst (fst g)) snd cols ?mt)"
      by (simp add: month_sums_def)
    with mt assms(2-4) show ?thesis by (rule groupby_total2)
  next
    case False
    let ?sel = "filter (\<lambda>g. snd (fst g) = stv) ?mt"
    from False assms(5) have g: "g \<in> set (groupby_sum (\<lambda>g. fst (fst g)) snd cols ?sel)"
      by (simp add: month_sums_def)
    have sel: "col t (snd h) = col a (snd h) + col b (snd h)" if "h \<in> set ?sel" for h
      using that mt by simp
    from sel assms(2-4) g show ?thesis by (rule groupby_total2)
  qed
qed

lemma column_total3:
  assumes "\<And>g. g \<in> set t \<Longrightarrow> col tt (snd g) = col a (snd g) + col b (snd g) + col c (snd g)"
  shows "column tt t =
    map (\<lambda>(x, y). x + y) (zip (map (\<lambda>(x, y). x + y) (zip (column a t) (column b t))) (column c t))"
proof -
  have "column tt t = map (\<lambda>g. (col a (snd g) + col b (snd g)) + col c (snd g)) t"
    unfolding column_def using assms by (intro map_cong) auto
  also have "\<dots> = map (\<lambda>(x, y). x + y)
      (zip (map (\<lambda>g. col a (snd g) + col b (snd g)) t) (map (\<lambda>g. col c (snd g)) t))"
    by (rule map_add_zip)
  also have "map (\<lambda>g. col a (snd g) + col b (snd g)) t =
      map (\<lambda>(x, y). x + y) (zip (map (\<lambda>g. col a (snd g)) t) (map (\<lambda>g. col b (snd g)) t))"
    by (rule map_add_zip)
  finally show ?thesis by (simp add: column_def)
qed

lemma column_total2:
  assumes "\<And>g. g \<in> set t \<Longrightarrow> col tt (snd g) = col a (snd g) + col b (snd g)"
  shows "column tt t = map (\<lambda>(x, y). x + y) (zip (column a t) (column b t))"
proof -
  have "column tt t = map (\<lambda>g. col a (snd g) + col b (snd g)) t"
    unfolding column_def using assms by (intro map_cong) auto
  also have "\<dots> = map (\<lambda>(x, y). x + y)
      (zip (map (\<lambda>g. col a (snd g)) t) (map (\<lambda>g. col b (snd g)) t))"
    by (rule map_add_zip)
  finally show ?thesis by (simp add: column_def)
qed

lemma cumsum_total3:
  assumes "length xs = length ys" "length ys = length zs"
  shows "cumsum (map (\<lambda>(x, y). x + y) (zip (map (\<lambda>(x, y). x + y) (zip xs ys)) zs)) =
    map (\<lambda>(x, y). x + y)
      (zip (map (\<lambda>(x, y). x + y) (zip (cumsum xs) (cumsum ys))) (cumsum zs))"
proof -
  have "length (map (\<lambda>(x, y). x + y) (zip xs ys)) = length zs" using assms by simp
  then show ?thesis using assms by (simp add: cumsum_add)
qed

lemma map_add_zero: "map (\<lambda>x. 0 + x) xs = (xs :: i64 list)"
  by (induction xs) auto

lemma sum3_columns:
  "map (\<lambda>g. col a (snd g) + col b (snd g) + col c (snd g)) t =
   map (\<lambda>(x, y). x + y) (zip (map (\<lambda>(x, y). x + y) (zip (column a t) (column b t))) (column c t))"
  by (induction t) (auto simp: column_def)

lemma sum2_columns:
  "map (\<lambda>g. col a (snd g) + col b (snd g)) t =
   map (\<lambda>(x, y). x + y) (zip (column a t) (column b t))"
  by (induction t) (auto simp: column_def)

lemma enrol_dts_columns:
  fixes df stv
  defines "t0 \<equiv> month_sums [''age_0_5'', ''age_5_17'', ''age_18_greater'', ''total''] df stv"
  defines "t \<equiv> enrol_dts df stv"
  shows "column ''c_age_0_5'' t = cumsum (column ''age_0_5'' t0)"
    and "column ''c_age_5_17'' t = cumsum (column ''age_5_17'' t0)"
    and "column ''c_age_18_greater'' t = cumsum (column ''age_18_greater'' t0)"
    and "column ''age_0_5'' t = column ''age_0_5'' t0"
    and "column ''age_5_17'' t = column ''age_5_17'' t0"
    and "column ''age_18_greater'' t = column ''age_18_greater'' t0"
    and "column ''total'' t = column ''total'' t0"
    and "column ''c_total'' t =
      map (\<lambda>(x, y). x + y) (zip (map (\<lambda>(x, y). x + y)
        (zip (cumsum (column ''age_0_5'' t0)) (cumsum (column ''age_5_17'' t0))))
        (cumsum (column ''age_18_greater'' t0)))"
    and "map fst t = map fst t0"
    and "length t = length t0"
  unfolding t_def t0_def enrol_dts_def Let_def
  by (simp_all add: sum3_columns column_set_col length_set_col keys_set_col length_cumsum
      length_column map_add_zero)

section \<open>The cumulative columns of the date-wise summaries\<close>

lemma bio_dts_columns:
  fixes df stv
  defines "t0 \<equiv> month_sums [''bio_age_5_17'', ''bio_age_17_'', ''total''] df stv"
  defines "t \<equiv> bio_dts df stv"
  shows "column ''c_bio_age_5_17'' t = cumsum (column ''bio_age_5_17'' t0)"
    and "column ''c_bio_age_17_'' t = cumsum (column ''bio_age_17_'' t0)"
    and "column ''bio_age_5_17'' t = column ''bio_age_5_17'' t0"
    and "column ''bio_age_17_'' t = column ''bio_age_17_'' t0"
    and "column ''total'' t = column ''total'' t0"
    and "column ''c_total'' t =
      map (\<lambda>(x, y). x + y)
        (zip (cumsum (column ''bio_age_5_17'' t0)) (cumsum (column ''bio_age_17_'' t0)))"
    and "map fst t = map fst t0"
    and "length t = length t0"
  unfolding t_def t0_def bio_dts_def Let_def
  by (simp_all add: sum2_columns column_set_col length_set_col keys_set_col length_cumsum
      length_column map_add_zero)

lemma demo_dts_columns:
  fixes df stv
  defines "t0 \<equiv> month_sums [''demo_age_5_17'', ''demo_age_17_'', ''total''] df stv"
  defines "t \<equiv> demo_dts df stv"
  shows "column ''c_demo_age_5_17'' t = cumsum (column ''demo_age_5_17'' t0)"
    and "column ''c_demo_age_17_'' t = cumsum (column ''demo_age_17_'' t0)"
    and "column ''demo_age_5_17'' t = column ''demo_age_5_17'' t0"
    and "column ''demo_age_17_'' t = column ''demo_age_17_'' t0"
    and "column ''total'' t = column ''total'' t0"
    and "column ''c_total'' t =
      map (\<lambda>(x, y). x + y)
        (zip (cumsum (column ''demo_age_5_17'' t0)) (cumsum (column ''demo_age_17_'' t0)))"
    and "map fst t = map fst t0"
    and "length t = length t0"
  unfolding t_def t0_def demo_dts_def Let_def
  by (simp_all add: sum2_columns column_set_col length_set_col keys_set_col length_cumsum
      length_column map_add_zero)

lemma enrol_cumulative:
  fixes df stv
  assumes tot: "\<And>r. r \<in> set df \<Longrightarrow>
      col ''total'' (vals r) =
        col ''age_0_5'' (vals r) + col ''age_5_17'' (vals r) + col ''age_18_greater'' (vals r)"
  defines "t \<equiv> enrol_dts df stv"
  shows "column ''c_age_0_5'' t = cumsum (column ''age_0_5'' t)"
    and "column ''c_age_5_17'' t = cumsum (column ''age_5_17'' t)"
    and "column ''c_age_18_greater'' t = cumsum (column ''age_18_greater'' t)"
    and "column ''c_total'' t =
      map (\<lambda>g. col ''c_age_0_5'' (snd g) + col ''c_age_5_17'' (snd g)
                 + col ''c_age_18_greater'' (snd g)) t"
    and "column ''c_total'' t = cumsum (column ''total'' t)"
proof -
  let ?cols = "[''age_0_5'', ''age_5_17'', ''age_18_greater'', ''total'']"
  let ?t0 = "month_sums ?cols df stv"
  note c = enrol_dts_columns [of df stv, folded t_def]
  show "column ''c_age_0_5'' t = cumsum (column ''age_0_5'' t)"
    and "column ''c_age_5_17'' t = cumsum (column ''age_5_17'' t)"
    and "column ''c_age_18_greater'' t = cumsum (column ''age_18_greater'' t)"
    by (simp_all add: c)
  show "column ''c_total'' t =
      map (\<lambda>g. col ''c_age_0_5'' (snd g) + col ''c_age_5_17'' (snd g)
                 + col ''c_age_18_greater'' (snd g)) t"
    by (simp add: sum3_columns c)
  have "col ''total'' (snd g) =
      col ''age_0_5'' (snd g) + col ''age_5_17'' (snd g) + col ''age_18_greater'' (snd g)"
    if "g \<in> set ?t0" for g
    by (rule month_sums_total3 [OF tot _ _ _ _ that]) simp_all
  then have "column ''total'' ?t0 =
      map (\<lambda>(x, y). x + y) (zip (map (\<lambda>(x, y). x + y)
        (zip (column ''age_0_5'' ?t0) (column ''age_5_17'' ?t0))) (column ''age_18_greater'' ?t0))"
    by (rule column_total3)
  then show "column ''c_total'' t = cumsum (column ''total'' t)"
    by (simp add: c cumsum_total3 length_column)
qed

lemma bio_cumulative:
  fixes df stv
  assumes tot: "\<And>r. r \<in> set df \<Longrightarrow>
      col ''total'' (vals r) = col ''bio_age_5_17'' (vals r) + col ''bio_age_17_'' (vals r)"
  defines "t \<equiv> bio_dts df stv"
  shows "column ''c_bio_age_5_17'' t = cumsum (column ''bio_age_5_17'' t)"
    and "column ''c_bio_age_17_'' t = cumsum (column ''bio_age_17_'' t)"
    and "column ''c_total'' t =
      map (\<lambda>g. col ''c_bio_age_5_17'' (snd g) + col ''c_bio_age_17_'' (snd g)) t"
    and "column ''c_total'' t = cumsum (column ''total'' t)"
proof -
  let ?cols = "[''bio_age_5_17'', ''bio_age_17_'', ''total'']"
  let ?t0 = "month_sums ?cols df stv"
  note c = bio_dts_columns [of df stv, folded t_def]
  show "column ''c_bio_age_5_17'' t = cumsum (column ''bio_age_5_17'' t)"
    and "column ''c_bio_age_17_'' t = cumsum (column ''bio_age_17_'' t)"
    by (simp_all add: c)
  show "column ''c_total'' t =
      map (\<lambda>g. col ''c_bio_age_5_17'' (snd g) + col ''c_bio_age_17_'' (snd g)) t"
    by (simp add: sum2_columns c)
  have "col ''total'' (snd g) = col ''bio_age_5_17'' (snd g) + col ''bio_age_17_'' (snd g)"
    if "g \<in> set ?t0" for g
    by (rule month_sums_total2 [OF tot _ _ _ that]) simp_all
  then have "column ''total'' ?t0 =
      map (\<lambda>(x, y). x + y) (zip (column ''bio_age_5_17'' ?t0) (column ''bio_age_17_'' ?t0))"
    by (rule column_total2)
  then show "column ''c_total'' t = cumsum (column ''total'' t)"
    by (simp add: c cumsum_add length_column)
qed

lemma demo_cumulative:
  fixes df stv
  assumes tot: "\<And>r. r \<in> set df \<Longrightarrow>
      col ''total'' (vals r) = col ''demo_age_5_17'' (vals r) + col ''demo_age_17_'' (vals r)"
  defines "t \<equiv> demo_dts df stv"
  shows "column ''c_demo_age_5_17'' t = cumsum (column ''demo_age_5_17'' t)"
    and "column ''c_demo_age_17_'' t = cumsum (column ''demo_age_17_'' t)"
    and "column ''c_total'' t =
      map (\<lambda>g. col ''c_demo_age_5_17'' (snd g) + col ''c_demo_age_17_'' (snd g)) t"
    and "column ''c_total'' t = cumsum (column ''total'' t)"
proof -
  let ?cols = "[''demo_age_5_17'', ''demo_age_17_'', ''total'']"
  let ?t0 = "month_sums ?cols df stv"
  note c = demo_dts_columns [of df stv, folded t_def]
  show "column ''c_demo_age_5_17'' t = cumsum (column ''demo_age_5_17'' t)"
    and "column ''c_demo_age_17_'' t = cumsum (column ''demo_age_17_'' t)"
    by (simp_all add: c)
  show "column ''c_total'' t =
      map (\<lambda>g. col ''c_demo_age_5_17'' (snd g) + col ''c_demo_age_17_'' (snd g)) t"
    by (simp add: sum2_columns c)
  have "col ''total'' (snd g) = col ''demo_age_5_17'' (snd g) + col ''demo_age_17_'' (snd g)"
    if "g \<in> set ?t0" for g
    by (rule month_sums_total2 [OF tot _ _ _ that]) simp_all
  then have "column ''total'' ?t0 =
      map (\<lambda>(x, y). x + y) (zip (column ''demo_age_5_17'' ?t0) (column ''demo_age_17_'' ?t0))"
    by (rule column_total2)
  then show "column ''c_total'' t = cumsum (column ''total'' t)"
    by (simp add: c cumsum_add length_column)
qed

lemma set_total3_Inr:
  assumes "set_total3 a b c df = Inr df'" "a \<noteq> ''total''" "b \<noteq> ''total''" "c \<noteq> ''total''"
  shows "has_cols [a, b, c] df"
    and "df' = map (\<lambda>r. r\<lparr>vals := AList.update ''total''
                             (col a (vals r) + col b (vals r) + col c (vals r)) (vals r)\<rparr>) df"
    and "has_cols [a, b, c, ''total''] df'"
    and "\<And>r. r \<in> set df' \<Longrightarrow>
           col ''total'' (vals r) = col a (vals r) + col b (vals r) + col c (vals r)"
  using assms
  by (auto simp: set_total3_def has_cols_def list_all_iff col_update update_conv'
      split: if_splits)

lemma set_total2_Inr:
  assumes "set_total2 a b df = Inr df'" "a \<noteq> ''total''" "b \<noteq> ''total''"
  shows "has_cols [a, b] df"
    and "df' = map (\<lambda>r. r\<lparr>vals := AList.update ''total''
                             (col a (vals r) + col b (vals r)) (vals r)\<rparr>) df"
    and "has_cols [a, b, ''total''] df'"
    and "\<And>r. r \<in> set df' \<Longrightarrow> col ''total'' (vals r) = col a (vals r) + col b (vals r)"
  using assms
  by (auto simp: set_total2_def has_cols_def list_all_iff col_update update_conv'
      split: if_splits)

lemma has_cols_set_month: "has_cols cs (set_month df) = has_cols cs df"
  by (simp add: has_cols_def set_month_def list_all_iff)

lemma date_wise_enrol:
  assumes "date_wise ''api_data_aadhar_enrolment'' df stv = Inr (res, df')"
  obtains df1 where "set_total3 ''age_0_5'' ''age_5_17'' ''age_18_greater'' df = Inr df1"
    and "df' = set_month df1"
    and "res = Some (project [''age_0_5'', ''age_5_17'', ''age_18_greater'', ''total'']
                       (enrol_dts df' stv), ''plots/'' @ date_plot_name stv)"
  using assms
  by (auto simp: date_wise_def returned_def enrol_date_wise_def Let_def
      split: sum.splits if_splits)

lemma date_wise_bio:
  assumes "date_wise ''api_data_aadhar_biometric'' df stv = Inr (res, df')"
  obtains df1 where "set_total2 ''bio_age_5_17'' ''bio_age_17_'' df = Inr df1"
    and "df' = set_month df1"
    and "res = Some (project [''bio_age_5_17'', ''bio_age_17_'', ''total'']
                       (bio_dts df' stv), ''plots/'' @ date_plot_name stv)"
  using assms
  by (auto simp: date_wise_def returned_def bio_date_wise_def Let_def
      split: sum.splits if_splits)

lemma date_wise_demo:
  assumes "date_wise ''api_data_aadhar_demographic'' df stv = Inr (res, df')"
  obtains df1 where "set_total2 ''demo_age_5_17'' ''demo_age_17_'' df = Inr df1"
    and "df' = set_month df1"
    and "res = Some (project [''demo_age_5_17'', ''demo_age_17_'', ''total'']
                       (demo_dts df' stv), ''plots/'' @ date_plot_name stv)"
  using assms
  by (auto simp: date_wise_def returned_def demo_date_wise_def Let_def
      split: sum.splits if_splits)

lemma vals_set_month: "r \<in> set (set_month df) \<Longrightarrow> \<exists>r0 \<in> set df. vals r = vals r0"
  by (auto simp: set_month_def)

text \<open>
  Claim C3. For each of the three categories and any state filter, when \<^verbatim>\<open>date_wise\<close>
  returns, the table it returns is the projection of the frame \<^verbatim>\<open>dts\<close> whose
  cumulative columns are plotted, and in that frame every cumulative column is the running
  sum of its measure, the cumulative total is row by row the sum of the cumulative measures,
  and it is also the running sum of the column \<open>total\<close>.
\<close>

theorem cumulative_total_consistent:
  "(date_wise ''api_data_aadhar_enrolment'' df stv = Inr (res, df') \<longrightarrow>
      res = Some (project [''age_0_5'', ''age_5_17'', ''age_18_greater'', ''total'']
                    (enrol_dts df' stv), ''plots/'' @ date_plot_name stv)
      \<and> column ''c_age_0_5'' (enrol_dts df' stv) = cumsum (column ''age_0_5'' (enrol_dts df' stv))
      \<and> column ''c_age_5_17'' (enrol_dts df' stv) = cumsum (column ''age_5_17'' (enrol_dts df' stv))
      \<and> column ''c_age_18_greater'' (enrol_dts df' stv) =
          cumsum (column ''age_18_greater'' (enrol_dts df' stv))
      \<and> column ''c_total'' (enrol_dts df' stv) =
          map (\<lambda>g. col ''c_age_0_5'' (snd g) + col ''c_age_5_17'' (snd g)
                     + col ''c_age_18_greater'' (snd g)) (enrol_dts df' stv)
      \<and> column ''c_total'' (enrol_dts df' stv) = cumsum (column ''total'' (enrol_dts df' stv)))
   \<and> (date_wise ''api_data_aadhar_biometric'' df stv = Inr (res, df') \<longrightarrow>
      res = Some (project [''bio_age_5_17'', ''bio_age_17_'', ''total'']
                    (bio_dts df' stv), ''plots/'' @ date_plot_name stv)
      \<and> column ''c_bio_age_5_17'' (bio_dts df' stv) =
          cumsum (column ''bio_age_5_17'' (bio_dts df' stv))
      \<and> column ''c_bio_age_17_'' (bio_dts df' stv) =
          cumsum (column ''bio_age_17_'' (bio_dts df' stv))
      \<and> column ''c_total'' (bio_dts df' stv) =
          map (\<lambda>g. col ''c_bio_age_5_17'' (snd g) + col ''c_bio_age_17_'' (snd g))
            (bio_dts df' stv)
      \<and> column ''c_total'' (bio_dts df' stv) = cumsum (column ''total'' (bio_dts df' stv)))
   \<and> (date_wise ''api_data_aadhar_demographic'' df stv = Inr (res, df') \<longrightarrow>
      res = Some (project [''demo_age_5_17'', ''demo_age_17_'', ''total'']
                    (demo_dts df' stv), ''plots/'' @ date_plot_name stv)
      \<and> column ''c_demo_age_5_17'' (demo_dts df' stv) =
          cumsum (column ''demo_age_5_17'' (demo_dts df' stv))
      \<and> column ''c_demo_age_17_'' (demo_dts df' stv) =
          cumsum (column ''demo_age_17_'' (demo_dts df' stv))
      \<and> column ''c_total'' (demo_dts df' stv) =
          map (\<lambda>g. col ''c_demo_age_5_17'' (snd g) + col ''c_demo_age_17_'' (snd g))
            (demo_dts df' stv)
      \<and> column ''c_total'' (demo_dts df' stv) = cumsum (column ''total'' (demo_dts df' stv)))"
proof (intro conjI impI)
  assume a: "date_wise ''api_data_aadhar_enrolment'' df stv = Inr (res, df')"
  then obtain df1 where df1: "set_total3 ''age_0_5'' ''age_5_17'' ''age_18_greater'' df = Inr df1"
    and df': "df' = set_month df1"
    and res: "res = Some (project [''age_0_5'', ''age_5_17'', ''age_18_greater'', ''total'']
                       (enrol_dts df' stv), ''plots/'' @ date_plot_name stv)"
    by (rule date_wise_enrol)
  have tot: "col ''total'' (vals r) =
        col ''age_0_5'' (vals r) + col ''age_5_17'' (vals r) + col ''age_18_greater'' (vals r)"
    if "r \<in> set df'" for r
    using that set_total3_Inr(4) [OF df1] vals_set_month [of r df1] by (auto simp: df')
  show "res = Some (project [''age_0_5'', ''age_5_17'', ''age_18_greater'', ''total'']
                    (enrol_dts df' stv), ''plots/'' @ date_plot_name stv)"
    by (rule res)
  show "column ''c_age_0_5'' (enrol_dts df' stv) = cumsum (column ''age_0_5'' (enrol_dts df' stv))"
    using tot by (rule enrol_cumulative(1))
  show "column ''c_age_5_17'' (enrol_dts df' stv) = cumsum (column ''age_5_17'' (enrol_dts df' stv))"
    using tot by (rule enrol_cumulative(2))
  show "column ''c_age_18_greater'' (enrol_dts df' stv) =
          cumsum (column ''age_18_greater'' (enrol_dts df' stv))"
    using tot by (rule enrol_cumulative(3))
  show "column ''c_total'' (enrol_dts df' stv) =
          map (\<lambda>g. col ''c_age_0_5'' (snd g) + col ''c_age_5_17'' (snd g)
                     + col ''c_age_18_greater'' (snd g)) (enrol_dts df' stv)"
    using tot by (rule enrol_cumulative(4))
  show "column ''c_total'' (enrol_dts df' stv) = cumsum (column ''total'' (enrol_dts df' stv))"
    using tot by (rule enrol_cumulative(5))
next
  assume a: "date_wise ''api_data_aadhar_biometric'' df stv = Inr (res, df')"
  then obtain df1 where df1: "set_total2 ''bio_age_5_17'' ''bio_age_17_'' df = Inr df1"
    and df': "df' = set_month df1"
    and res: "res = Some (project [''bio_age_5_17'', ''bio_age_17_'', ''total'']
                       (bio_dts df' stv), ''plots/'' @ date_plot_name stv)"
    by (rule date_wise_bio)
  have tot: "col ''total'' (vals r) = col ''bio_age_5_17'' (vals r) + col ''bio_age_17_'' (vals r)"
    if "r \<in> set df'" for r
    using that set_total2_Inr(4) [OF df1] vals_set_month [of r df1] by (auto simp: df')
  show "res = Some (project [''bio_age_5_17'', ''bio_age_17_'', ''total'']
                    (bio_dts df' stv), ''plots/'' @ date_plot_name stv)"
    by (rule res)
  show "column ''c_bio_age_5_17'' (bio_dts df' stv) =
          cumsum (column ''bio_age_5_17'' (bio_dts df' stv))"
    using tot by (rule bio_cumulative(1))
  show "column ''c_bio_age_17_'' (bio_dts df' stv) =
          cumsum (column ''bio_age_17_'' (bio_dts df' stv))"
    using tot by (rule bio_cumulative(2))
  show "column ''c_total'' (bio_dts df' stv) =
          map (\<lambda>g. col ''c_bio_age_5_17'' (snd g) + col ''c_bio_age_17_'' (snd g))
            (bio_dts df' stv)"
    using tot by (rule bio_cumulative(3))
  show "column ''c_total'' (bio_dts df' stv) = cumsum (column ''total'' (bio_dts df' stv))"
    using tot by (rule bio_cumulative(4))
next
  assume a: "date_wise ''api_data_aadhar_demographic'' df stv = Inr (res, df')"
  then obtain df1 where df1: "set_total2 ''demo_age_5_17'' ''demo_age_17_'' df = Inr df1"
    and df': "df' = set_month df1"
    and res: "res = Some (project [''demo_age_5_17'', ''demo_age_17_'', ''total'']
                       (demo_dts df' stv), ''plots/'' @ date_plot_name stv)"
    by (rule date_wise_demo)
  have tot: "col ''total'' (vals r) = col ''demo_age_5_17'' (vals r) + col ''demo_age_17_'' (vals r)"
    if "r \<in> set df'" for r
    using that set_total2_Inr(4) [OF df1] vals_set_month [of r df1] by (auto simp: df')
  show "res = Some (project [''demo_age_5_17'', ''demo_age_17_'', ''total'']
                    (demo_dts df' stv), ''plots/'' @ date_plot_name stv)"
    by (rule res)
  show "column ''c_demo_age_5_17'' (demo_dts df' stv) =
          cumsum (column ''demo_age_5_17'' (demo_dts df' stv))"
    using tot by (rule demo_cumulative(1))
  show "column ''c_demo_age_17_'' (demo_dts df' stv) =
          cumsum (column ''demo_age_17_'' (demo_dts df' stv))"
    using tot by (rule demo_cumulative(2))
  show "column ''c_total'' (demo_dts df' stv) =
          map (\<lambda>g. col ''c_demo_age_5_17'' (snd g) + col ''c_demo_age_17_'' (snd g))
            (demo_dts df' stv)"
    using tot by (rule demo_cumulative(3))
  show "column ''c_total'' (demo_dts df' stv) = cumsum (column ''total'' (demo_dts df' stv))"
    using tot by (rule demo_cumulative(4))
qed

end
